theory Spec2Isabelle
  imports Complex_Main
begin

section \<open>Python and tensor primitives used by utils.py\<close>

text \<open>
  The three functions of \<^verbatim>\<open>utils.py\<close> are embedded as HOL functions. Exceptions are
  values: every \<^verbatim>\<open>assert\<close>, every integer index out of range, every division by zero
  and every shape error of a tensor assignment is a branch that returns the error.
  Tensor elements are real numbers (exact arithmetic stands for the floating-point
  values); Python integers are \<^typ>\<open>int\<close>. The block-grid parameters \<^verbatim>\<open>bsize\<close>,
  \<^verbatim>\<open>bcount\<close>, \<^verbatim>\<open>boffset\<close>, \<^verbatim>\<open>bstride\<close> are read at positions 0 and 1 only and are
  pairs; \<^verbatim>\<open>msize\<close> and \<^verbatim>\<open>xsize\<close> are a triple and a quadruple.
\<close>

datatype error = AssertionError string | ZeroDivisionError | IndexError | RuntimeError

text \<open>A tensor of any rank (the mask): its shape and its element at each multi-index.\<close>

record tensor =
  shape :: "nat list"
  elem :: "nat list \<Rightarrow> real"

text \<open>A tensor of rank four (the feature tensor \<^verbatim>\<open>x\<close> and the batch \<^verbatim>\<open>gathered\<close>).\<close>

record tensor4 =
  t_n :: nat
  t_c :: nat
  t_h :: nat
  t_w :: nat
  at4 :: "nat \<Rightarrow> nat \<Rightarrow> nat \<Rightarrow> nat \<Rightarrow> real"

text \<open>A tensor of rank three: a view \<^verbatim>\<open>x[B, :, a:b, c:d]\<close> or a slot \<^verbatim>\<open>gathered[i]\<close>.\<close>

record block =
  b_c :: nat
  b_h :: nat
  b_w :: nat
  b_at :: "nat \<Rightarrow> nat \<Rightarrow> nat \<Rightarrow> real"

type_synonym block_index = "int \<times> int \<times> int"

text \<open>
  An integer index into an axis of length \<open>n\<close>: a negative index counts from the end,
  an index outside \<open>[-n, n)\<close> raises IndexError.
\<close>

definition py_index :: "nat \<Rightarrow> int \<Rightarrow> error + nat" where
  "py_index n i =
     (if 0 \<le> i \<and> i < int n then Inr (nat i)
      else if - int n \<le> i \<and> i < 0 then Inr (nat (i + int n))
      else Inl IndexError)"

text \<open>
  A slice \<^verbatim>\<open>start:stop\<close> on an axis of length \<open>n\<close> never raises: a negative bound has
  \<open>n\<close> added, the result is clamped to \<open>[0, n]\<close>, and the slice is empty when the stop
  is not beyond the start. The slice selects the positions \<open>lo \<le> k < hi\<close>.
\<close>

definition slice_bound :: "nat \<Rightarrow> int \<Rightarrow> nat" where
  "slice_bound n i = (if i < 0 then nat (i + int n) else min (nat i) n)"

definition py_slice :: "nat \<Rightarrow> int \<Rightarrow> int \<Rightarrow> nat \<times> nat" where
  "py_slice n start stop =
     (let lo = slice_bound n start; hi = slice_bound n stop in (lo, max lo hi))"

text \<open>
  \<^verbatim>\<open>block.mean().item()\<close>: the arithmetic mean of the elements. The mean of an empty
  tensor is NaN, written \<open>None\<close>; every comparison with NaN is false.
\<close>

definition mean :: "real list \<Rightarrow> real option" where
  "mean vs = (if vs = [] then None else Some (sum_list vs / real (length vs)))"

section \<open>reduce\_mask\<close>

text \<open>
  \<^verbatim>\<open>mask[N, a:b, c:d]\<close> of a mask of rank three, its elements in row-major order.
\<close>

definition mask_block :: "tensor \<Rightarrow> int \<Rightarrow> nat \<times> nat \<Rightarrow> nat \<times> nat \<Rightarrow> error + real list" where
  "mask_block msk N rows cols =
     (case py_index (shape msk ! 0) N of
        Inl e \<Rightarrow> Inl e
      | Inr n \<Rightarrow> Inr (concat (map (\<lambda>r. map (\<lambda>c. elem msk [n, r, c]) [fst cols..<snd cols])
                                   [fst rows..<snd rows])))"

text \<open>The body of the innermost loop up to the test \<^verbatim>\<open>val > thresh\<close> (lines 68 to 75).\<close>

definition block_mean ::
  "tensor \<Rightarrow> int \<times> int \<times> int \<Rightarrow> int \<times> int \<Rightarrow> int \<times> int \<Rightarrow> int \<times> int \<Rightarrow>
   nat \<times> nat \<times> nat \<Rightarrow> error + real option" where
  "block_mean msk msize bsize boffset bstride cell =
     (case cell of (N, h0, w0) \<Rightarrow>
        let bh_index = fst boffset + int h0 * fst bstride;
            bw_index = snd boffset + int w0 * snd bstride
        in case mask_block msk (int N)
                  (py_slice (shape msk ! 1) bh_index (min (bh_index + fst bsize) (fst (snd msize))))
                  (py_slice (shape msk ! 2) bw_index (min (bw_index + snd bsize) (snd (snd msize)))) of
             Inl e \<Rightarrow> Inl e
           | Inr blk \<Rightarrow> Inr (mean blk))"

definition block_active ::
  "tensor \<Rightarrow> int \<times> int \<times> int \<Rightarrow> int \<times> int \<Rightarrow> int \<times> int \<Rightarrow> int \<times> int \<Rightarrow> real \<Rightarrow>
   nat \<times> nat \<times> nat \<Rightarrow> error + bool" where
  "block_active msk msize bsize boffset bstride thresh cell =
     (case block_mean msk msize bsize boffset bstride cell of
        Inl e \<Rightarrow> Inl e
      | Inr None \<Rightarrow> Inr False
      | Inr (Some v) \<Rightarrow> Inr (v > thresh))"

text \<open>
  The three nested \<^verbatim>\<open>for\<close> loops visit the cells in this order; \<^verbatim>\<open>range\<close> of a
  negative number is empty.
\<close>

definition grid_cells :: "int \<Rightarrow> int \<times> int \<Rightarrow> (nat \<times> nat \<times> nat) list" where
  "grid_cells n bcount =
     concat (map (\<lambda>N. concat (map (\<lambda>h0. map (\<lambda>w0. (N, h0, w0)) [0..<nat (snd bcount)])
                                     [0..<nat (fst bcount)]))
                 [0..<nat n])"

text \<open>
  The loop body over the remaining cells. An exception leaves the loop; the counter
  \<^verbatim>\<open>count_index\<close> of the source is written and never read, and is left out.
\<close>

fun reduce_loop ::
  "tensor \<Rightarrow> int \<times> int \<times> int \<Rightarrow> int \<times> int \<Rightarrow> int \<times> int \<Rightarrow> int \<times> int \<Rightarrow> real \<Rightarrow>
   (nat \<times> nat \<times> nat) list \<Rightarrow> block_index list \<Rightarrow> error + block_index list" where
  "reduce_loop msk msize bsize boffset bstride thresh [] activeBlockIndices =
     Inr activeBlockIndices"
| "reduce_loop msk msize bsize boffset bstride thresh (cell # cells) activeBlockIndices =
     (case block_active msk msize bsize boffset bstride thresh cell of
        Inl e \<Rightarrow> Inl e
      | Inr active \<Rightarrow>
          reduce_loop msk msize bsize boffset bstride thresh cells
            (if active
             then activeBlockIndices @ [(int (fst cell), int (fst (snd cell)), int (snd (snd cell)))]
             else activeBlockIndices))"

text \<open>
  The assertions come first, in the source's order. \<^verbatim>\<open>%\<close> by zero raises
  ZeroDivisionError, and \<^verbatim>\<open>and\<close> does not evaluate its right operand when the left one
  is false. Python's \<^verbatim>\<open>%\<close> takes the sign of the divisor, as \<open>mod\<close> on \<^typ>\<open>int\<close> does.
\<close>

definition reduce_mask ::
  "tensor \<Rightarrow> int \<times> int \<times> int \<Rightarrow> int \<times> int \<Rightarrow> int \<times> int \<Rightarrow> int \<times> int \<Rightarrow> int \<times> int \<Rightarrow> real \<Rightarrow>
   error + block_index list" where
  "reduce_mask msk msize bsize bcount boffset bstride thresh =
     (if length (shape msk) \<noteq> 3 then Inl (AssertionError ''Expect mask rank = 3'')
      else if fst bsize \<noteq> snd bsize
        then Inl (AssertionError ''Expect block to be a square, bsize[0] == bsize[1]'')
      else if fst bcount = 0 then Inl ZeroDivisionError
      else if fst (snd msize) mod fst bcount \<noteq> 0
        then Inl (AssertionError ''Mask cannot be partioned into given grid shape'')
      else if snd bcount = 0 then Inl ZeroDivisionError
      else if snd (snd msize) mod snd bcount \<noteq> 0
        then Inl (AssertionError ''Mask cannot be partioned into given grid shape'')
      else reduce_loop msk msize bsize boffset bstride thresh (grid_cells (fst msize) bcount) [])"

section \<open>sparse\_gather and sparse\_scatter\<close>

text \<open>
  The window of an index-list entry in the feature tensor (lines 114 to 116 and 150 to
  155): the batch position \<^verbatim>\<open>B\<close> as an integer index, the rows
  \<^verbatim>\<open>bh_index:min(bh_index+bsize[0], xsize[2])\<close> and the columns likewise, as slices of
  the tensor's own axes.
\<close>

record window =
  wb :: nat
  wr :: "nat \<times> nat"
  wc :: "nat \<times> nat"

definition block_window ::
  "tensor4 \<Rightarrow> int \<times> int \<times> int \<times> int \<Rightarrow> int \<times> int \<Rightarrow> int \<times> int \<Rightarrow> int \<times> int \<Rightarrow>
   block_index \<Rightarrow> error + window" where
  "block_window x xsize bsize boffset bstride e =
     (case e of (B, h0, w0) \<Rightarrow>
        let bh_index = fst boffset + h0 * fst bstride;
            bw_index = snd boffset + w0 * snd bstride
        in case py_index (t_n x) B of
             Inl err \<Rightarrow> Inl err
           | Inr b \<Rightarrow>
               Inr \<lparr>wb = b,
                    wr = py_slice (t_h x) bh_index (min (bh_index + fst bsize) (fst (snd (snd xsize)))),
                    wc = py_slice (t_w x) bw_index (min (bw_index + snd bsize) (snd (snd (snd xsize))))\<rparr>)"

text \<open>The view \<^verbatim>\<open>x[B, :, a:b, c:d]\<close> of a window, and the slot \<^verbatim>\<open>gathered[i]\<close>.\<close>

definition view :: "tensor4 \<Rightarrow> window \<Rightarrow> block" where
  "view x w =
     \<lparr>b_c = t_c x, b_h = snd (wr w) - fst (wr w), b_w = snd (wc w) - fst (wc w),
      b_at = (\<lambda>ch r c. at4 x (wb w) ch (fst (wr w) + r) (fst (wc w) + c))\<rparr>"

definition slot :: "tensor4 \<Rightarrow> nat \<Rightarrow> error + block" where
  "slot g i =
     (if i < t_n g then Inr \<lparr>b_c = t_c g, b_h = t_h g, b_w = t_w g, b_at = at4 g i\<rparr>
      else Inl IndexError)"

text \<open>
  A tensor assignment \<^verbatim>\<open>dst[...] = src\<close> and an in-place \<^verbatim>\<open>dst[...] += src\<close> broadcast
  the source to the destination's shape: on every axis the lengths are equal or the
  source's is one (its single element is repeated). Any other pair of shapes raises
  RuntimeError.
\<close>

definition broadcastable :: "block \<Rightarrow> nat \<Rightarrow> nat \<Rightarrow> nat \<Rightarrow> bool" where
  "broadcastable src c h w =
     ((b_c src = c \<or> b_c src = 1) \<and> (b_h src = h \<or> b_h src = 1) \<and> (b_w src = w \<or> b_w src = 1))"

definition expand_at :: "block \<Rightarrow> nat \<Rightarrow> nat \<Rightarrow> nat \<Rightarrow> real" where
  "expand_at src ch r c =
     b_at src (if b_c src = 1 then 0 else ch) (if b_h src = 1 then 0 else r)
              (if b_w src = 1 then 0 else c)"

definition in_window :: "tensor4 \<Rightarrow> window \<Rightarrow> nat \<Rightarrow> nat \<Rightarrow> nat \<Rightarrow> nat \<Rightarrow> bool" where
  "in_window x w b ch r c =
     (b = wb w \<and> ch < t_c x \<and> fst (wr w) \<le> r \<and> r < snd (wr w) \<and> fst (wc w) \<le> c \<and> c < snd (wc w))"

text \<open>\<^verbatim>\<open>x[B, :, a:b, c:d] += src\<close> when \<open>do_add\<close>, \<^verbatim>\<open>x[B, :, a:b, c:d] = src\<close> otherwise.\<close>

definition write_window :: "bool \<Rightarrow> tensor4 \<Rightarrow> window \<Rightarrow> block \<Rightarrow> tensor4" where
  "write_window do_add x w src =
     x\<lparr>at4 := (\<lambda>b ch r c.
          if in_window x w b ch r c
          then (if do_add
                then at4 x b ch r c + expand_at src ch (r - fst (wr w)) (c - fst (wc w))
                else expand_at src ch (r - fst (wr w)) (c - fst (wc w)))
          else at4 x b ch r c)\<rparr>"

text \<open>\<^verbatim>\<open>gathered[i] = src\<close>.\<close>

definition write_slot :: "tensor4 \<Rightarrow> nat \<Rightarrow> block \<Rightarrow> tensor4" where
  "write_slot g i src =
     g\<lparr>at4 := (\<lambda>b ch r c.
          if b = i \<and> ch < t_c g \<and> r < t_h g \<and> c < t_w g then expand_at src ch r c
          else at4 g b ch r c)\<rparr>"

text \<open>
  The loop of \<^verbatim>\<open>sparse_gather\<close> (lines 113 to 117) over the remaining entries. The right
  side is evaluated first (IndexError for a batch index out of range), then the slot is
  indexed, then the copy checks the shapes.
\<close>

fun gather_loop ::
  "tensor4 \<Rightarrow> int \<times> int \<times> int \<times> int \<Rightarrow> int \<times> int \<Rightarrow> int \<times> int \<Rightarrow> int \<times> int \<Rightarrow>
   block_index list \<Rightarrow> nat \<Rightarrow> tensor4 \<Rightarrow> error + tensor4" where
  "gather_loop x xsize bsize boffset bstride [] count_index gathered = Inr gathered"
| "gather_loop x xsize bsize boffset bstride (e # es) count_index gathered =
     (case block_window x xsize bsize boffset bstride e of
        Inl err \<Rightarrow> Inl err
      | Inr w \<Rightarrow>
          if \<not> count_index < t_n gathered then Inl IndexError
          else if \<not> broadcastable (view x w) (t_c gathered) (t_h gathered) (t_w gathered)
            then Inl RuntimeError
          else gather_loop x xsize bsize boffset bstride es (Suc count_index)
                 (write_slot gathered count_index (view x w)))"

text \<open>
  \<^verbatim>\<open>torch.empty\<close> raises RuntimeError for a negative dimension; the content of the
  tensor it returns is arbitrary, and is the parameter \<open>uninit\<close>.
\<close>

definition sparse_gather ::
  "tensor4 \<Rightarrow> int \<times> int \<times> int \<times> int \<Rightarrow> block_index list \<Rightarrow> int \<times> int \<Rightarrow> int \<times> int \<Rightarrow>
   int \<times> int \<Rightarrow> int \<times> int \<Rightarrow> (nat \<Rightarrow> nat \<Rightarrow> nat \<Rightarrow> nat \<Rightarrow> real) \<Rightarrow> error + tensor4" where
  "sparse_gather x xsize activeBlockIndices bsize bcount boffset bstride uninit =
     (if fst bsize \<noteq> snd bsize
        then Inl (AssertionError ''Expect block to be a square, bsize[0] == bsize[1]'')
      else if fst (snd xsize) < 0 \<or> fst bsize < 0 \<or> snd bsize < 0 then Inl RuntimeError
      else gather_loop x xsize bsize boffset bstride activeBlockIndices 0
             \<lparr>t_n = length activeBlockIndices, t_c = nat (fst (snd xsize)),
              t_h = nat (fst bsize), t_w = nat (snd bsize), at4 = uninit\<rparr>)"

text \<open>
  The loop of \<^verbatim>\<open>sparse_scatter\<close> (lines 149 to 156). The feature tensor is changed in
  place, so the loop returns the tensor as the call leaves it together with the
  exception that ended the call, if any: the writes made before an exception stay.
\<close>

fun scatter_loop ::
  "int \<times> int \<times> int \<times> int \<Rightarrow> tensor4 \<Rightarrow> int \<times> int \<Rightarrow> int \<times> int \<Rightarrow> int \<times> int \<Rightarrow> bool \<Rightarrow>
   block_index list \<Rightarrow> nat \<Rightarrow> tensor4 \<Rightarrow> tensor4 \<times> error option" where
  "scatter_loop xsize gathered bsize boffset bstride do_add [] count_index x = (x, None)"
| "scatter_loop xsize gathered bsize boffset bstride do_add (e # es) count_index x =
     (case block_window x xsize bsize boffset bstride e of
        Inl err \<Rightarrow> (x, Some err)
      | Inr w \<Rightarrow>
          (case slot gathered count_index of
             Inl err \<Rightarrow> (x, Some err)
           | Inr src \<Rightarrow>
               if \<not> broadcastable src (t_c x) (snd (wr w) - fst (wr w)) (snd (wc w) - fst (wc w))
               then (x, Some RuntimeError)
               else scatter_loop xsize gathered bsize boffset bstride do_add es (Suc count_index)
                      (write_window do_add x w src)))"

text \<open>The parameters \<^verbatim>\<open>gsize\<close> and \<^verbatim>\<open>bcount\<close> are not read by the source.\<close>

definition sparse_scatter ::
  "tensor4 \<Rightarrow> int \<times> int \<times> int \<times> int \<Rightarrow> tensor4 \<Rightarrow> int \<times> int \<times> int \<times> int \<Rightarrow> block_index list \<Rightarrow>
   int \<times> int \<Rightarrow> int \<times> int \<Rightarrow> int \<times> int \<Rightarrow> int \<times> int \<Rightarrow> bool \<Rightarrow> tensor4 \<times> error option" where
  "sparse_scatter x xsize gathered gsize activeBlockIndices bsize bcount boffset bstride do_add =
     (if fst bsize \<noteq> snd bsize
        then (x, Some (AssertionError ''Expect block to be a square, bsize[0] == bsize[1]''))
      else scatter_loop xsize gathered bsize boffset bstride do_add activeBlockIndices 0 x)"

section \<open>Predicates and inputs of the properties\<close>

text \<open>
  The preconditions that lines 53 to 61 validate: the mask has rank three, the block
  is square, and each grid count divides the mask's extent on its axis (a count of zero
  divides nothing: the modulo raises). The exceptions these lines can raise are the
  configuration errors.
\<close>

definition valid_config :: "tensor \<Rightarrow> int \<times> int \<times> int \<Rightarrow> int \<times> int \<Rightarrow> int \<times> int \<Rightarrow> bool" where
  "valid_config msk msize bsize bcount =
     (length (shape msk) = 3 \<and> fst bsize = snd bsize \<and>
      fst bcount \<noteq> 0 \<and> fst (snd msize) mod fst bcount = 0 \<and>
      snd bcount \<noteq> 0 \<and> snd (snd msize) mod snd bcount = 0)"

definition raised_by_validation :: "error \<Rightarrow> bool" where
  "raised_by_validation e =
     (case e of AssertionError _ \<Rightarrow> True | ZeroDivisionError \<Rightarrow> True | _ \<Rightarrow> False)"

text \<open>The triple that line 77 appends for a cell.\<close>

definition to_index :: "nat \<times> nat \<times> nat \<Rightarrow> block_index" where
  "to_index cell = (int (fst cell), int (fst (snd cell)), int (snd (snd cell)))"

text \<open>A mask of shape (1, 4, 4) with every element one (the spec's concrete scenario).\<close>

definition mask_ones :: tensor where
  "mask_ones = \<lparr>shape = [1, 4, 4], elem = (\<lambda>_. 1)\<rparr>"

text \<open>The order batch first, then grid row, then grid column, strict.\<close>

definition index_less :: "block_index \<Rightarrow> block_index \<Rightarrow> bool" where
  "index_less a b =
     (fst a < fst b \<or>
      (fst a = fst b \<and>
        (fst (snd a) < fst (snd b) \<or> (fst (snd a) = fst (snd b) \<and> snd (snd a) < snd (snd b)))))"

text \<open>The shape list \<^verbatim>\<open>msize\<close> that the caller passes is the shape of the mask.\<close>

definition declared_shape :: "tensor \<Rightarrow> int \<times> int \<times> int \<Rightarrow> bool" where
  "declared_shape msk msize =
     (msize = (int (shape msk ! 0), int (shape msk ! 1), int (shape msk ! 2)))"

text \<open>A multi-index lies inside a shape: one position per axis, each below the length.\<close>

definition in_bounds :: "nat list \<Rightarrow> nat list \<Rightarrow> bool" where
  "in_bounds ix shp = list_all2 (<) ix shp"


text \<open>
  The same tensor as \<open>mask_ones\<close>; the two records differ only outside the shape, where
  a tensor has no element.
\<close>

definition mask_ones_beyond :: tensor where
  "mask_ones_beyond = \<lparr>shape = [1, 4, 4], elem = (\<lambda>ix. if in_bounds ix [1, 4, 4] then 1 else 7)\<rparr>"





text \<open>A feature tensor of shape (1, 1, 4, 4) with the elements 0 to 15.\<close>

definition x4 :: tensor4 where
  "x4 = \<lparr>t_n = 1, t_c = 1, t_h = 4, t_w = 4, at4 = (\<lambda>b ch r c. real (4 * r + c))\<rparr>"

text \<open>A batch of \<open>n\<close> blocks of shape (1, 2, 2), every element nine.\<close>

definition nines :: "nat \<Rightarrow> tensor4" where
  "nines n = \<lparr>t_n = n, t_c = 1, t_h = 2, t_w = 2, at4 = (\<lambda>b ch r c. 9)\<rparr>"





text \<open>A feature tensor of shape (1, 1, 5, 5) with the elements 0 to 24.\<close>

definition x5 :: tensor4 where
  "x5 = \<lparr>t_n = 1, t_c = 1, t_h = 5, t_w = 5, at4 = (\<lambda>b ch r c. real (5 * r + c))\<rparr>"


section \<open>Properties of reduce\_mask\<close>

lemma mask_block_error: "mask_block msk N rows cols = Inl e \<Longrightarrow> e = IndexError"
  by (auto simp: mask_block_def py_index_def split: if_splits sum.splits)

lemma block_mean_error:
  "block_mean msk msize bsize boffset bstride cell = Inl e \<Longrightarrow> e = IndexError"
  by (auto simp: block_mean_def Let_def split: prod.splits sum.splits dest: mask_block_error)

lemma block_active_error:
  "block_active msk msize bsize boffset bstride thresh cell = Inl e \<Longrightarrow> e = IndexError"
  by (auto simp: block_active_def split: sum.splits option.splits dest: block_mean_error)

lemma reduce_loop_error:
  "reduce_loop msk msize bsize boffset bstride thresh cells acc = Inl e \<Longrightarrow> e = IndexError"
  by (induction cells arbitrary: acc) (auto split: sum.splits dest: block_active_error)

text \<open>
  When the loop returns, it has appended the active cells, in the order of the cells.
\<close>

lemma reduce_loop_result:
  "reduce_loop msk msize bsize boffset bstride thresh cells acc = Inr idx \<Longrightarrow>
   idx = acc @ map to_index
           (filter (\<lambda>cell. block_active msk msize bsize boffset bstride thresh cell = Inr True) cells)"
proof (induction cells arbitrary: acc)
  case Nil
  then show ?case by simp
next
  case (Cons cell cells)
  then obtain a where a: "block_active msk msize bsize boffset bstride thresh cell = Inr a"
    by (cases "block_active msk msize bsize boffset bstride thresh cell") auto
  show ?case
  proof (cases a)
    case True
    with a Cons.prems
    have "reduce_loop msk msize bsize boffset bstride thresh cells (acc @ [to_index cell]) = Inr idx"
      by (simp add: to_index_def)
    from Cons.IH [OF this] a True show ?thesis by simp
  next
    case False
    with a Cons.prems
    have "reduce_loop msk msize bsize boffset bstride thresh cells acc = Inr idx"
      by simp
    from Cons.IH [OF this] a False show ?thesis by simp
  qed
qed

lemma reduce_loop_returns:
  "\<forall>cell \<in> set cells. \<forall>e. block_active msk msize bsize boffset bstride thresh cell \<noteq> Inl e \<Longrightarrow>
   \<exists>idx. reduce_loop msk msize bsize boffset bstride thresh cells acc = Inr idx"
proof (induction cells arbitrary: acc)
  case Nil
  show ?case by simp
next
  case (Cons cell cells)
  obtain a where a: "block_active msk msize bsize boffset bstride thresh cell = Inr a"
    using Cons.prems by (cases "block_active msk msize bsize boffset bstride thresh cell") auto
  have "\<exists>idx. reduce_loop msk msize bsize boffset bstride thresh cells
          (if a then acc @ [to_index cell] else acc) = Inr idx"
    using Cons.prems by (intro Cons.IH) simp
  then show ?case using a by (cases a) (simp_all add: to_index_def)
qed

lemma reduce_mask_invalid:
  "\<not> valid_config msk msize bsize bcount \<Longrightarrow>
   \<exists>e. reduce_mask msk msize bsize bcount boffset bstride thresh = Inl e \<and> raised_by_validation e"
  by (auto simp: valid_config_def reduce_mask_def raised_by_validation_def)

lemma reduce_mask_valid:
  "valid_config msk msize bsize bcount \<Longrightarrow>
   reduce_mask msk msize bsize bcount boffset bstride thresh =
   reduce_loop msk msize bsize boffset bstride thresh (grid_cells (fst msize) bcount) []"
  by (simp add: valid_config_def reduce_mask_def)

text \<open>
  C6. \<^verbatim>\<open>reduce_mask\<close> fails with a configuration error (an exception of the validating
  lines 53 to 61: AssertionError, or ZeroDivisionError of the modulo for a grid count of
  zero) whenever the mask does not have rank three, or the block is not square, or a
  grid count does not divide the mask's extent; the failure does not depend on any
  element of the mask, so no mask data has been examined. When the three preconditions
  hold, no exception that \<^verbatim>\<open>reduce_mask\<close> raises is a configuration error.
\<close>

theorem reduce_mask_configuration_error:
  "(\<not> valid_config msk msize bsize bcount \<longrightarrow>
      (\<exists>e. reduce_mask msk msize bsize bcount boffset bstride thresh = Inl e \<and>
           raised_by_validation e) \<and>
      (\<forall>f. reduce_mask (msk\<lparr>elem := f\<rparr>) msize bsize bcount boffset bstride thresh =
           reduce_mask msk msize bsize bcount boffset bstride thresh)) \<and>
   (valid_config msk msize bsize bcount \<longrightarrow>
      (\<forall>e. reduce_mask msk msize bsize bcount boffset bstride thresh = Inl e \<longrightarrow>
           \<not> raised_by_validation e))"
proof (intro conjI impI allI)
  assume "\<not> valid_config msk msize bsize bcount"
  then show "\<exists>e. reduce_mask msk msize bsize bcount boffset bstride thresh = Inl e \<and>
                 raised_by_validation e"
    by (rule reduce_mask_invalid)
next
  fix f assume "\<not> valid_config msk msize bsize bcount"
  then show "reduce_mask (msk\<lparr>elem := f\<rparr>) msize bsize bcount boffset bstride thresh =
             reduce_mask msk msize bsize bcount boffset bstride thresh"
    by (auto simp: valid_config_def reduce_mask_def)
next
  fix e
  assume "valid_config msk msize bsize bcount"
    and "reduce_mask msk msize bsize bcount boffset bstride thresh = Inl e"
  then have "e = IndexError"
    by (auto simp: reduce_mask_valid dest: reduce_loop_error)
  then show "\<not> raised_by_validation e"
    by (simp add: raised_by_validation_def)
qed

text \<open>
  A block of 2 by 3 is refused with a configuration error; with a square block and a
  declared batch count of 2 for a mask of one batch the call fails later, on the mask
  access, with IndexError, which is not a configuration error.
\<close>

theorem reduce_mask_configuration_error_witness:
  "\<not> valid_config mask_ones (1, 4, 4) (2, 3) (2, 2) \<and>
   (\<exists>e. reduce_mask mask_ones (1, 4, 4) (2, 3) (2, 2) (0, 0) (2, 2) (1 / 2) = Inl e \<and>
        raised_by_validation e) \<and>
   valid_config mask_ones (2, 4, 4) (2, 2) (2, 2) \<and>
   reduce_mask mask_ones (2, 4, 4) (2, 2) (2, 2) (0, 0) (2, 2) (1 / 2) = Inl IndexError \<and>
   \<not> raised_by_validation IndexError"
proof -
  have bad: "\<not> valid_config mask_ones (1, 4, 4) (2, 3) (2, 2)"
    by code_simp
  have good: "valid_config mask_ones (2, 4, 4) (2, 2) (2, 2)"
    by code_simp
  have run: "reduce_mask mask_ones (2, 4, 4) (2, 2) (2, 2) (0, 0) (2, 2) (1 / 2) = Inl IndexError"
    by code_simp
  from reduce_mask_configuration_error [of mask_ones "(1, 4, 4)" "(2, 3)" "(2, 2)" "(0, 0)" "(2, 2)" "1 / 2"] bad
  have one: "\<exists>e. reduce_mask mask_ones (1, 4, 4) (2, 3) (2, 2) (0, 0) (2, 2) (1 / 2) = Inl e \<and>
        raised_by_validation e"
    by blast
  from reduce_mask_configuration_error [of mask_ones "(2, 4, 4)" "(2, 2)" "(2, 2)" "(0, 0)" "(2, 2)" "1 / 2"] good run
  have two: "\<not> raised_by_validation IndexError"
    by blast
  from bad one good run two show ?thesis by blast
qed

lemma sorted_wrt_concat_map:
  "(\<And>x. x \<in> set xs \<Longrightarrow> sorted_wrt R (f x)) \<Longrightarrow>
   sorted_wrt (\<lambda>x y. \<forall>a \<in> set (f x). \<forall>b \<in> set (f y). R a b) xs \<Longrightarrow>
   sorted_wrt R (concat (map f xs))"
  by (induction xs) (auto simp: sorted_wrt_append)

lemma set_grid_cells:
  "set (grid_cells n bcount) =
     {(N, h0, w0). N < nat n \<and> h0 < nat (fst bcount) \<and> w0 < nat (snd bcount)}"
  by (force simp: grid_cells_def)

lemma sorted_grid_cells:
  "sorted_wrt (\<lambda>a b. index_less (to_index a) (to_index b)) (grid_cells n bcount)"
  unfolding grid_cells_def
proof (intro sorted_wrt_concat_map)
  fix N h0
  show "sorted_wrt (\<lambda>a b. index_less (to_index a) (to_index b))
          (map (\<lambda>w0. (N, h0, w0)) [0..<nat (snd bcount)])"
    by (simp add: sorted_wrt_map index_less_def to_index_def)
next
  fix N
  show "sorted_wrt (\<lambda>x y. \<forall>a\<in>set (map (\<lambda>w0. (N, x, w0)) [0..<nat (snd bcount)]).
           \<forall>b\<in>set (map (\<lambda>w0. (N, y, w0)) [0..<nat (snd bcount)]).
           index_less (to_index a) (to_index b)) [0..<nat (fst bcount)]"
    by (rule sorted_wrt_mono_rel [OF _ sorted_wrt_upt]) (auto simp: index_less_def to_index_def)
next
  show "sorted_wrt (\<lambda>x y.
           \<forall>a\<in>set (concat (map (\<lambda>h0. map (\<lambda>w0. (x, h0, w0)) [0..<nat (snd bcount)]) [0..<nat (fst bcount)])).
           \<forall>b\<in>set (concat (map (\<lambda>h0. map (\<lambda>w0. (y, h0, w0)) [0..<nat (snd bcount)]) [0..<nat (fst bcount)])).
           index_less (to_index a) (to_index b)) [0..<nat n]"
    by (rule sorted_wrt_mono_rel [OF _ sorted_wrt_upt]) (auto simp: index_less_def to_index_def)
qed

lemma sorted_active_cells:
  "sorted_wrt index_less (map to_index (filter P (grid_cells n bcount)))"
  by (simp add: sorted_wrt_map sorted_wrt_filter sorted_grid_cells)

lemma block_active_in_batch:
  "fst cell < shape msk ! 0 \<Longrightarrow> block_active msk msize bsize boffset bstride thresh cell \<noteq> Inl e"
  by (cases cell)
     (auto simp: block_active_def block_mean_def mask_block_def py_index_def Let_def
           split: sum.splits option.splits)

lemma reduce_mask_returns:
  assumes "valid_config msk msize bsize bcount" and "declared_shape msk msize"
  shows "reduce_mask msk msize bsize bcount boffset bstride thresh =
         Inr (map to_index
                (filter (\<lambda>cell. block_active msk msize bsize boffset bstride thresh cell = Inr True)
                        (grid_cells (fst msize) bcount)))"
proof -
  have "\<forall>cell \<in> set (grid_cells (fst msize) bcount).
          \<forall>e. block_active msk msize bsize boffset bstride thresh cell \<noteq> Inl e"
  proof (intro ballI allI)
    fix cell e
    assume "cell \<in> set (grid_cells (fst msize) bcount)"
    then have "fst cell < shape msk ! 0"
      using assms(2) by (auto simp: set_grid_cells declared_shape_def)
    then show "block_active msk msize bsize boffset bstride thresh cell \<noteq> Inl e"
      by (rule block_active_in_batch)
  qed
  from reduce_loop_returns [OF this]
  obtain idx where idx: "reduce_loop msk msize bsize boffset bstride thresh
                           (grid_cells (fst msize) bcount) [] = Inr idx"
    by blast
  from reduce_loop_result [OF idx] idx show ?thesis
    by (simp add: reduce_mask_valid [OF assms(1)])
qed

text \<open>
  C2. For a mask of rank three whose declared shape is its shape and a grid
  configuration that satisfies the validated preconditions, \<^verbatim>\<open>reduce_mask\<close> returns
  an index list; the list is strictly increasing in the order batch, grid row, grid
  column, and every triple has its batch below the mask's batch count and its grid row
  and grid column below the grid counts, none negative.
\<close>

theorem reduce_mask_sorted_in_range:
  assumes "valid_config msk msize bsize bcount" and "declared_shape msk msize"
  shows "\<exists>idx. reduce_mask msk msize bsize bcount boffset bstride thresh = Inr idx \<and>
           sorted_wrt index_less idx \<and>
           (\<forall>e \<in> set idx. 0 \<le> fst e \<and> fst e < int (shape msk ! 0) \<and>
                          0 \<le> fst (snd e) \<and> fst (snd e) < fst bcount \<and>
                          0 \<le> snd (snd e) \<and> snd (snd e) < snd bcount)"
proof -
  let ?idx = "map to_index
                (filter (\<lambda>cell. block_active msk msize bsize boffset bstride thresh cell = Inr True)
                        (grid_cells (fst msize) bcount))"
  have "reduce_mask msk msize bsize bcount boffset bstride thresh = Inr ?idx"
    by (rule reduce_mask_returns [OF assms])
  moreover have "sorted_wrt index_less ?idx"
    by (rule sorted_active_cells)
  moreover have "\<forall>e \<in> set ?idx. 0 \<le> fst e \<and> fst e < int (shape msk ! 0) \<and>
                          0 \<le> fst (snd e) \<and> fst (snd e) < fst bcount \<and>
                          0 \<le> snd (snd e) \<and> snd (snd e) < snd bcount"
    using assms(2) by (auto simp: set_grid_cells to_index_def declared_shape_def)
  ultimately show ?thesis by blast
qed


text \<open>The spec's scenario: the all-ones mask of shape (1, 4, 4) with a 2 by 2 grid.\<close>

theorem reduce_mask_sorted_in_range_witness:
  "valid_config mask_ones (1, 4, 4) (2, 2) (2, 2) \<and> declared_shape mask_ones (1, 4, 4) \<and>
   reduce_mask mask_ones (1, 4, 4) (2, 2) (2, 2) (0, 0) (2, 2) (1 / 2) =
     Inr [(0, 0, 0), (0, 0, 1), (0, 1, 0), (0, 1, 1)] \<and>
   sorted_wrt index_less [(0, 0, 0), (0, 0, 1), (0, 1, 0), (0, 1, 1)] \<and>
   list_all (\<lambda>e :: block_index. 0 \<le> fst e \<and> fst e < int (shape mask_ones ! 0) \<and>
                  0 \<le> fst (snd e) \<and> fst (snd e) < 2 \<and> 0 \<le> snd (snd e) \<and> snd (snd e) < 2)
     [(0, 0, 0), (0, 0, 1), (0, 1, 0), (0, 1, 1)]"
proof -
  have v: "valid_config mask_ones (1, 4, 4) (2, 2) (2, 2)"
    by code_simp
  have d: "declared_shape mask_ones (1, 4, 4)"
    by code_simp
  have run: "reduce_mask mask_ones (1, 4, 4) (2, 2) (2, 2) (0, 0) (2, 2) (1 / 2) =
     Inr [(0, 0, 0), (0, 0, 1), (0, 1, 0), (0, 1, 1)]"
    by code_simp
  from reduce_mask_sorted_in_range [OF v d, of "(0, 0)" "(2, 2)" "1 / 2"] run
  have "sorted_wrt index_less [(0, 0, 0), (0, 0, 1), (0, 1, 0), (0, 1, 1)] \<and>
        (\<forall>e \<in> set [(0, 0, 0), (0, 0, 1), (0, 1, 0), (0, 1, 1)].
            0 \<le> fst e \<and> fst e < int (shape mask_ones ! 0) \<and>
            0 \<le> fst (snd e) \<and> fst (snd e) < fst (2 :: int, 2 :: int) \<and>
            0 \<le> snd (snd e) \<and> snd (snd e) < snd (2 :: int, 2 :: int))"
    by auto
  then show ?thesis using v d run by (simp add: list_all_iff)
qed


lemma slice_bound_le: "slice_bound n i \<le> n"
  by (auto simp: slice_bound_def nat_le_iff)

lemma py_slice_le: "snd (py_slice n a b) \<le> n"
  by (simp add: py_slice_def Let_def slice_bound_le)

lemma rank3_shape: "length xs = 3 \<Longrightarrow> xs = [xs ! 0, xs ! 1, xs ! 2]"
  by (cases xs; cases "tl xs"; cases "tl (tl xs)") auto

lemma mask_block_cong:
  assumes "length (shape m1) = 3" and "shape m1 = shape m2"
    and "\<forall>ix. in_bounds ix (shape m1) \<longrightarrow> elem m1 ix = elem m2 ix"
    and "snd rows \<le> shape m1 ! 1" and "snd cols \<le> shape m1 ! 2"
  shows "mask_block m1 N rows cols = mask_block m2 N rows cols"
proof (cases "py_index (shape m1 ! 0) N")
  case (Inl e)
  then show ?thesis using assms(2) by (simp add: mask_block_def)
next
  case (Inr n)
  then have n: "n < shape m1 ! 0"
    by (auto simp: py_index_def split: if_splits)
  have "elem m1 [n, r, c] = elem m2 [n, r, c]" if "r < snd rows" "c < snd cols" for r c
  proof -
    have "in_bounds [n, r, c] [shape m1 ! 0, shape m1 ! 1, shape m1 ! 2]"
      using n that assms(4,5) by (simp add: in_bounds_def)
    then have "in_bounds [n, r, c] (shape m1)"
      using rank3_shape [OF assms(1)] by simp
    with assms(3) show ?thesis by blast
  qed
  then have "concat (map (\<lambda>r. map (\<lambda>c. elem m1 [n, r, c]) [fst cols..<snd cols]) [fst rows..<snd rows]) =
             concat (map (\<lambda>r. map (\<lambda>c. elem m2 [n, r, c]) [fst cols..<snd cols]) [fst rows..<snd rows])"
    by (intro arg_cong [where f = concat] map_cong refl) simp_all
  then show ?thesis using Inr assms(2) by (simp add: mask_block_def)
qed

lemma block_active_cong:
  assumes "length (shape m1) = 3" and "shape m1 = shape m2"
    and "\<forall>ix. in_bounds ix (shape m1) \<longrightarrow> elem m1 ix = elem m2 ix"
  shows "block_active m1 msize bsize boffset bstride thresh cell =
         block_active m2 msize bsize boffset bstride thresh cell"
proof -
  have "block_mean m1 msize bsize boffset bstride cell = block_mean m2 msize bsize boffset bstride cell"
    using assms(2) mask_block_cong [OF assms]
    by (cases cell) (simp add: block_mean_def Let_def py_slice_le)
  then show ?thesis by (simp add: block_active_def)
qed

lemma reduce_loop_cong:
  "(\<And>cell. block_active m1 msize bsize boffset bstride thresh cell =
           block_active m2 msize bsize boffset bstride thresh cell) \<Longrightarrow>
   reduce_loop m1 msize bsize boffset bstride thresh cells acc =
   reduce_loop m2 msize bsize boffset bstride thresh cells acc"
  by (induction cells arbitrary: acc) (simp_all split: sum.splits)

text \<open>
  C9. \<^verbatim>\<open>reduce_mask\<close> reads the mask through indexing and \<^verbatim>\<open>mean\<close> only and assigns
  to no part of it: its embedding takes the mask and returns the index list alone. The
  result is a function of the inputs proper: two calls whose masks have the same shape
  and the same elements inside that shape, with the same shape list, grid configuration
  and threshold, return the same outcome, the same index list in the same order (or the
  same exception).
\<close>

theorem reduce_mask_deterministic:
  assumes "shape m1 = shape m2"
    and "\<forall>ix. in_bounds ix (shape m1) \<longrightarrow> elem m1 ix = elem m2 ix"
  shows "reduce_mask m1 msize bsize bcount boffset bstride thresh =
         reduce_mask m2 msize bsize bcount boffset bstride thresh"
proof (cases "length (shape m1) = 3")
  case True
  have "reduce_loop m1 msize bsize boffset bstride thresh (grid_cells (fst msize) bcount) [] =
        reduce_loop m2 msize bsize boffset bstride thresh (grid_cells (fst msize) bcount) []"
    by (rule reduce_loop_cong) (rule block_active_cong [OF True assms])
  then show ?thesis using assms(1) by (simp add: reduce_mask_def)
next
  case False
  then show ?thesis using assms(1) by (simp add: reduce_mask_def)
qed

text \<open>Two records of the same tensor that differ outside its shape give the same result.\<close>

theorem reduce_mask_deterministic_witness:
  "shape mask_ones = shape mask_ones_beyond \<and>
   elem mask_ones [0, 1, 2] = elem mask_ones_beyond [0, 1, 2] \<and>
   elem mask_ones [1, 0, 0] \<noteq> elem mask_ones_beyond [1, 0, 0] \<and>
   reduce_mask mask_ones (1, 4, 4) (2, 2) (2, 2) (0, 0) (2, 2) (1 / 2) =
   reduce_mask mask_ones_beyond (1, 4, 4) (2, 2) (2, 2) (0, 0) (2, 2) (1 / 2)"
proof -
  have s: "shape mask_ones = shape mask_ones_beyond"
    by (simp add: mask_ones_def mask_ones_beyond_def)
  have e: "\<forall>ix. in_bounds ix (shape mask_ones) \<longrightarrow> elem mask_ones ix = elem mask_ones_beyond ix"
    by (simp add: mask_ones_def mask_ones_beyond_def)
  have "reduce_mask mask_ones (1, 4, 4) (2, 2) (2, 2) (0, 0) (2, 2) (1 / 2) =
        reduce_mask mask_ones_beyond (1, 4, 4) (2, 2) (2, 2) (0, 0) (2, 2) (1 / 2)"
    by (rule reduce_mask_deterministic [OF s e])
  then show ?thesis
    by (simp add: mask_ones_def mask_ones_beyond_def in_bounds_def)
qed

section \<open>Properties of sparse\_gather and sparse\_scatter\<close>

lemma block_window_error:
  "block_window x xsize bsize boffset bstride e = Inl err \<Longrightarrow> err = IndexError"
  by (cases e) (auto simp: block_window_def py_index_def Let_def split: if_splits sum.splits)

lemma block_window_dims:
  "t_n y = t_n x \<Longrightarrow> t_h y = t_h x \<Longrightarrow> t_w y = t_w x \<Longrightarrow>
   block_window y xsize bsize boffset bstride e = block_window x xsize bsize boffset bstride e"
  by (cases e) (simp add: block_window_def Let_def split: sum.splits)

lemma write_window_dims [simp]:
  "t_n (write_window do_add x w src) = t_n x"
  "t_c (write_window do_add x w src) = t_c x"
  "t_h (write_window do_add x w src) = t_h x"
  "t_w (write_window do_add x w src) = t_w x"
  by (simp_all add: write_window_def)

lemma write_slot_dims [simp]:
  "t_n (write_slot g i src) = t_n g"
  "t_c (write_slot g i src) = t_c g"
  "t_h (write_slot g i src) = t_h g"
  "t_w (write_slot g i src) = t_w g"
  by (simp_all add: write_slot_def)

lemma block_window_write [simp]:
  "block_window (write_window do_add x w src) xsize bsize boffset bstride e =
   block_window x xsize bsize boffset bstride e"
  by (rule block_window_dims) simp_all



lemma scatter_loop_step:
  obtains (stop) err where
      "\<And>es. scatter_loop xsize g bsize boffset bstride do_add (e # es) k x = (x, Some err)"
      "block_window x xsize bsize boffset bstride e = Inl err \<or> slot g k = Inl err \<or>
       err = RuntimeError"
  | (go) w src where
      "block_window x xsize bsize boffset bstride e = Inr w"
      "slot g k = Inr src"
      "broadcastable src (t_c x) (snd (wr w) - fst (wr w)) (snd (wc w) - fst (wc w))"
      "\<And>es. scatter_loop xsize g bsize boffset bstride do_add (e # es) k x =
       scatter_loop xsize g bsize boffset bstride do_add es (Suc k) (write_window do_add x w src)"
proof (cases "block_window x xsize bsize boffset bstride e")
  case (Inl err)
  then show ?thesis by (intro stop [of err]) simp_all
next
  case w: (Inr w)
  show ?thesis
  proof (cases "slot g k")
    case (Inl err)
    with w show ?thesis by (intro stop [of err]) simp_all
  next
    case src: (Inr src)
    show ?thesis
    proof (cases "broadcastable src (t_c x) (snd (wr w) - fst (wr w)) (snd (wc w) - fst (wc w))")
      case True
      with w src show ?thesis by (intro go [of w src]) simp_all
    next
      case False
      with w src show ?thesis by (intro stop [of RuntimeError]) simp_all
    qed
  qed
qed

lemma scatter_loop_dims:
  "t_n (fst (scatter_loop xsize g bsize boffset bstride do_add es k x)) = t_n x \<and>
   t_c (fst (scatter_loop xsize g bsize boffset bstride do_add es k x)) = t_c x \<and>
   t_h (fst (scatter_loop xsize g bsize boffset bstride do_add es k x)) = t_h x \<and>
   t_w (fst (scatter_loop xsize g bsize boffset bstride do_add es k x)) = t_w x"
proof (induction es arbitrary: k x)
  case Nil
  show ?case by simp
next
  case (Cons e es)
  show ?case
  proof (cases rule: scatter_loop_step [of xsize g bsize boffset bstride do_add e k x])
    case (stop err)
    then show ?thesis by simp
  next
    case (go w src)
    show ?thesis
      unfolding go(4) using Cons.IH [of "Suc k" "write_window do_add x w src"] by simp
  qed
qed


lemma slot_error: "slot g k = Inl err \<Longrightarrow> err = IndexError"
  by (simp add: slot_def split: if_splits)

lemma scatter_loop_short:
  "k \<le> t_n g \<Longrightarrow> t_n g < k + length es \<Longrightarrow>
   scatter_loop xsize g bsize boffset bstride do_add es k x =
     (case scatter_loop xsize g bsize boffset bstride do_add (take (t_n g - k) es) k x of
        (x', None) \<Rightarrow> (x', Some IndexError)
      | (x', Some err) \<Rightarrow> (x', Some err))"
proof (induction es arbitrary: k x)
  case Nil
  then show ?case by simp
next
  case (Cons e es)
  show ?case
  proof (cases "k = t_n g")
    case True
    have "slot g k = Inl IndexError"
      using True by (simp add: slot_def)
    then have "scatter_loop xsize g bsize boffset bstride do_add (e # es) k x = (x, Some IndexError)"
      by (cases "block_window x xsize bsize boffset bstride e")
         (auto dest: block_window_error)
    then show ?thesis using True by simp
  next
    case False
    then have k: "Suc k \<le> t_n g" and t: "t_n g - k = Suc (t_n g - Suc k)"
      using Cons.prems by simp_all
    have l: "t_n g < Suc k + length es"
      using Cons.prems by simp
    have tk: "take (t_n g - k) (e # es) = e # take (t_n g - Suc k) es"
      by (simp add: t)
    show ?thesis
    proof (cases rule: scatter_loop_step [of xsize g bsize boffset bstride do_add e k x])
      case (stop err)
      show ?thesis unfolding tk stop(1) by simp
    next
      case (go w src)
      show ?thesis unfolding tk go(4) by (rule Cons.IH [OF k l])
    qed
  qed
qed

lemma scatter_loop_long:
  "k + length es \<le> t_n g \<Longrightarrow> k + length es \<le> n \<Longrightarrow>
   scatter_loop xsize (g\<lparr>t_n := n\<rparr>) bsize boffset bstride do_add es k x =
   scatter_loop xsize g bsize boffset bstride do_add es k x"
proof (induction es arbitrary: k x)
  case Nil
  show ?case by simp
next
  case (Cons e es)
  have s: "slot (g\<lparr>t_n := n\<rparr>) k = slot g k"
    using Cons.prems by (simp add: slot_def)
  have "scatter_loop xsize (g\<lparr>t_n := n\<rparr>) bsize boffset bstride do_add es (Suc k) y =
        scatter_loop xsize g bsize boffset bstride do_add es (Suc k) y" for y
    using Cons.prems by (intro Cons.IH) simp_all
  then show ?case by (simp add: s split: sum.splits)
qed

lemma gather_loop_dims:
  "gather_loop x xsize bsize boffset bstride es k g0 = Inr g \<Longrightarrow>
   t_n g = t_n g0 \<and> t_c g = t_c g0 \<and> t_h g = t_h g0 \<and> t_w g = t_w g0"
proof (induction es arbitrary: k g0)
  case Nil
  then show ?case by simp
next
  case (Cons e es)
  from Cons.prems obtain w where w: "block_window x xsize bsize boffset bstride e = Inr w"
    and rest: "gather_loop x xsize bsize boffset bstride es (Suc k) (write_slot g0 k (view x w)) = Inr g"
    by (auto split: sum.splits if_splits)
  from Cons.IH [OF rest] show ?case by simp
qed

text \<open>
  C4, as amended. \<^verbatim>\<open>sparse_scatter\<close> does not compare the length of the index list with
  the length of the batch. When the batch is shorter, the entries that have a slot are
  scattered first and their writes stay; the call then raises IndexError at the first
  entry without a slot (or the earlier exception of one of those entries). When the
  batch is at least as long, the surplus slots are never read: the call behaves as with
  the batch cut to the list's length. \<^verbatim>\<open>sparse_gather\<close> takes no batch; the one it
  allocates has the length of the index list.
\<close>

theorem sparse_scatter_length_mismatch:
  "(t_n g < length idx \<longrightarrow>
      sparse_scatter x xsize g gsize idx bsize bcount boffset bstride do_add =
        (case sparse_scatter x xsize g gsize (take (t_n g) idx) bsize bcount boffset bstride do_add of
           (x', None) \<Rightarrow> (x', Some IndexError)
         | (x', Some err) \<Rightarrow> (x', Some err))) \<and>
   (length idx \<le> t_n g \<longrightarrow>
      sparse_scatter x xsize g gsize idx bsize bcount boffset bstride do_add =
      sparse_scatter x xsize (g\<lparr>t_n := length idx\<rparr>) gsize idx bsize bcount boffset bstride do_add) \<and>
   (\<forall>gathered. sparse_gather x xsize idx bsize bcount boffset bstride uninit = Inr gathered \<longrightarrow>
      t_n gathered = length idx)"
proof (intro conjI impI allI)
  assume "t_n g < length idx"
  then show "sparse_scatter x xsize g gsize idx bsize bcount boffset bstride do_add =
        (case sparse_scatter x xsize g gsize (take (t_n g) idx) bsize bcount boffset bstride do_add of
           (x', None) \<Rightarrow> (x', Some IndexError)
         | (x', Some err) \<Rightarrow> (x', Some err))"
    using scatter_loop_short [of 0 g idx xsize bsize boffset bstride do_add x]
    by (simp add: sparse_scatter_def)
next
  assume "length idx \<le> t_n g"
  then show "sparse_scatter x xsize g gsize idx bsize bcount boffset bstride do_add =
      sparse_scatter x xsize (g\<lparr>t_n := length idx\<rparr>) gsize idx bsize bcount boffset bstride do_add"
    using scatter_loop_long [of 0 idx g "length idx" xsize bsize boffset bstride do_add x]
    by (simp add: sparse_scatter_def)
next
  fix gathered
  assume "sparse_gather x xsize idx bsize bcount boffset bstride uninit = Inr gathered"
  then show "t_n gathered = length idx"
    by (auto simp: sparse_gather_def split: if_splits dest: gather_loop_dims)
qed






text \<open>
  The claim C4 as stated fails: with one entry and a batch of two slots the call returns
  without an exception; with two entries and a batch of one slot the first block has
  been written when IndexError is raised.
\<close>

theorem sparse_scatter_length_mismatch_counterexample:
  "length [(0, 0, 0) :: block_index] \<noteq> t_n (nines 2) \<and>
   snd (sparse_scatter x4 (1, 1, 4, 4) (nines 2) (2, 1, 2, 2) [(0, 0, 0)]
          (2, 2) (2, 2) (0, 0) (2, 2) False) = None \<and>
   length [(0, 0, 0) :: block_index, (0, 1, 1)] \<noteq> t_n (nines 1) \<and>
   snd (sparse_scatter x4 (1, 1, 4, 4) (nines 1) (1, 1, 2, 2) [(0, 0, 0), (0, 1, 1)]
          (2, 2) (2, 2) (0, 0) (2, 2) False) = Some IndexError \<and>
   at4 (fst (sparse_scatter x4 (1, 1, 4, 4) (nines 1) (1, 1, 2, 2) [(0, 0, 0), (0, 1, 1)]
          (2, 2) (2, 2) (0, 0) (2, 2) False)) 0 0 1 1 = 9 \<and>
   at4 x4 0 0 1 1 = 5"
  by code_simp

text \<open>Both cases of the amended claim, at the inputs of the counterexample.\<close>

theorem sparse_scatter_length_mismatch_witness:
  "t_n (nines 1) < length [(0, 0, 0) :: block_index, (0, 1, 1)] \<and>
   sparse_scatter x4 (1, 1, 4, 4) (nines 1) (1, 1, 2, 2) [(0, 0, 0), (0, 1, 1)]
       (2, 2) (2, 2) (0, 0) (2, 2) False =
     (case sparse_scatter x4 (1, 1, 4, 4) (nines 1) (1, 1, 2, 2) (take (t_n (nines 1)) [(0, 0, 0), (0, 1, 1)])
             (2, 2) (2, 2) (0, 0) (2, 2) False of
        (x', None) \<Rightarrow> (x', Some IndexError)
      | (x', Some err) \<Rightarrow> (x', Some err)) \<and>
   length [(0, 0, 0) :: block_index] \<le> t_n (nines 2) \<and>
   sparse_scatter x4 (1, 1, 4, 4) (nines 2) (2, 1, 2, 2) [(0, 0, 0)] (2, 2) (2, 2) (0, 0) (2, 2) False =
   sparse_scatter x4 (1, 1, 4, 4) ((nines 2)\<lparr>t_n := length [(0, 0, 0) :: block_index]\<rparr>) (2, 1, 2, 2)
       [(0, 0, 0)] (2, 2) (2, 2) (0, 0) (2, 2) False"
proof -
  have a: "t_n (nines 1) < length [(0, 0, 0) :: block_index, (0, 1, 1)]"
    by (simp add: nines_def)
  have b: "length [(0, 0, 0) :: block_index] \<le> t_n (nines 2)"
    by (simp add: nines_def)
  from a sparse_scatter_length_mismatch [of "nines 1" "[(0, 0, 0), (0, 1, 1)]" x4 "(1, 1, 4, 4)"
      "(1, 1, 2, 2)" "(2, 2)" "(2, 2)" "(0, 0)" "(2, 2)" False]
  have one: "sparse_scatter x4 (1, 1, 4, 4) (nines 1) (1, 1, 2, 2) [(0, 0, 0), (0, 1, 1)]
       (2, 2) (2, 2) (0, 0) (2, 2) False =
     (case sparse_scatter x4 (1, 1, 4, 4) (nines 1) (1, 1, 2, 2) (take (t_n (nines 1)) [(0, 0, 0), (0, 1, 1)])
             (2, 2) (2, 2) (0, 0) (2, 2) False of
        (x', None) \<Rightarrow> (x', Some IndexError)
      | (x', Some err) \<Rightarrow> (x', Some err))"
    by blast
  from b sparse_scatter_length_mismatch [of "nines 2" "[(0, 0, 0)]" x4 "(1, 1, 4, 4)"
      "(2, 1, 2, 2)" "(2, 2)" "(2, 2)" "(0, 0)" "(2, 2)" False]
  have two: "sparse_scatter x4 (1, 1, 4, 4) (nines 2) (2, 1, 2, 2) [(0, 0, 0)] (2, 2) (2, 2) (0, 0) (2, 2) False =
   sparse_scatter x4 (1, 1, 4, 4) ((nines 2)\<lparr>t_n := length [(0, 0, 0) :: block_index]\<rparr>) (2, 1, 2, 2)
       [(0, 0, 0)] (2, 2) (2, 2) (0, 0) (2, 2) False"
    by blast
  from a one b two show ?thesis by blast
qed










text \<open>
  C5. The claim asks that a window clipped at the tensor's edge be copied into its slot
  without an exception. The source clips the window (line 116) and never reads outside
  the tensor, but it assigns the clipped view to the whole slot of the block's size, and
  that assignment raises RuntimeError when the shapes differ. Here \<^verbatim>\<open>reduce_mask\<close>
  selects, from the mean over the clipped mask block, the cells of a 2 by 2 grid of
  blocks of 3 by 3 with stride 2 on a 4 by 4 plane; the window of entry (0, 0, 1) is
  clipped to the columns 2 and 3, and \<^verbatim>\<open>sparse_gather\<close> fails on the index list. It fails
  likewise on the last block of a 5 by 5 plane cut into blocks of 3 by 3.
\<close>

theorem sparse_gather_boundary_block_raises:
  "reduce_mask mask_ones (1, 4, 4) (3, 3) (2, 2) (0, 0) (2, 2) (1 / 2) =
     Inr [(0, 0, 0), (0, 0, 1), (0, 1, 0), (0, 1, 1)] \<and>
   block_window x4 (1, 1, 4, 4) (3, 3) (0, 0) (2, 2) (0, 0, 1) =
     Inr \<lparr>wb = 0, wr = (0, 3), wc = (2, 4)\<rparr> \<and>
   sparse_gather x4 (1, 1, 4, 4) [(0, 0, 0), (0, 0, 1), (0, 1, 0), (0, 1, 1)]
     (3, 3) (2, 2) (0, 0) (2, 2) (\<lambda>b ch r c. 0) = Inl RuntimeError \<and>
   sparse_gather x5 (1, 1, 5, 5) [(0, 1, 1)] (3, 3) (2, 2) (0, 0) (3, 3) (\<lambda>b ch r c. 0) =
     Inl RuntimeError"
proof -
  have a: "reduce_mask mask_ones (1, 4, 4) (3, 3) (2, 2) (0, 0) (2, 2) (1 / 2) =
     Inr [(0, 0, 0), (0, 0, 1), (0, 1, 0), (0, 1, 1)]"
    by code_simp
  have b: "block_window x4 (1, 1, 4, 4) (3, 3) (0, 0) (2, 2) (0, 0, 1) =
     Inr \<lparr>wb = 0, wr = (0, 3), wc = (2, 4)\<rparr>"
    by code_simp
  have "case sparse_gather x4 (1, 1, 4, 4) [(0, 0, 0), (0, 0, 1), (0, 1, 0), (0, 1, 1)]
     (3, 3) (2, 2) (0, 0) (2, 2) (\<lambda>b ch r c. 0) of Inl e \<Rightarrow> e = RuntimeError | Inr g \<Rightarrow> False"
    by code_simp
  then have c: "sparse_gather x4 (1, 1, 4, 4) [(0, 0, 0), (0, 0, 1), (0, 1, 0), (0, 1, 1)]
     (3, 3) (2, 2) (0, 0) (2, 2) (\<lambda>b ch r c. 0) = Inl RuntimeError"
    by (simp split: sum.splits)
  have "case sparse_gather x5 (1, 1, 5, 5) [(0, 1, 1)] (3, 3) (2, 2) (0, 0) (3, 3) (\<lambda>b ch r c. 0)
          of Inl e \<Rightarrow> e = RuntimeError | Inr g \<Rightarrow> False"
    by code_simp
  then have d: "sparse_gather x5 (1, 1, 5, 5) [(0, 1, 1)] (3, 3) (2, 2) (0, 0) (3, 3)
      (\<lambda>b ch r c. 0) = Inl RuntimeError"
    by (simp split: sum.splits)
  from a b c d show ?thesis by blast
qed









end
